theory Spec2Isabelle
  imports Main "HOL-Library.Sublist"
begin

section \<open>The language registry (src/lib/i18n/types.ts)\<close>

text \<open>
  The TypeScript union \<^verbatim>\<open>Language = 'en' | 'ja' | 'zh-tw'\<close> is erased when the
  library is compiled: what \<^verbatim>\<open>setLang\<close> and \<^verbatim>\<open>useState\<close> handle at run time is a
  JavaScript string. A language code is therefore a \<^typ>\<open>string\<close>, and membership of
  the union is the predicate \<open>is_Language\<close>, computed from the registry array.
\<close>

type_synonym Language = string

text \<open>
  \<^verbatim>\<open>SUPPORTED_LANGUAGES = [{code: 'en', name: 'English'}, ...] as const\<close>:
  each object is the pair of its \<^verbatim>\<open>code\<close> and its \<^verbatim>\<open>name\<close>, in the order of the array.
\<close>

definition SUPPORTED_LANGUAGES :: "(Language \<times> string) list" where
  "SUPPORTED_LANGUAGES =
     [(''en'', ''English''),
      (''ja'', ''Japanese''),
      (''zh-tw'', ''Traditional Chinese'')]"

text \<open>\<^verbatim>\<open>typeof SUPPORTED_LANGUAGES[number]['code']\<close>: the codes of the registry.\<close>

definition is_Language :: "string \<Rightarrow> bool" where
  "is_Language c = (c \<in> set (map fst SUPPORTED_LANGUAGES))"

text \<open>The registry's display name of a code: the \<^verbatim>\<open>name\<close> of the entry with that \<^verbatim>\<open>code\<close>.\<close>

definition displayName :: "string \<Rightarrow> string option" where
  "displayName c = map_of SUPPORTED_LANGUAGES c"

section \<open>JavaScript values and property lookup\<close>

text \<open>
  What \<^verbatim>\<open>obj[key]\<close> can yield on an object literal whose own properties are strings:
  \<^verbatim>\<open>undefined\<close>, a string, or something inherited from \<^verbatim>\<open>Object.prototype\<close>, which is
  an object or a function.
\<close>

datatype js_value = JSUndefined | JSString string | JSObject | JSFunction

text \<open>
  The properties every object literal inherits (ECMAScript, with Annex B):
  \<^verbatim>\<open>__proto__\<close> reads as \<^verbatim>\<open>Object.prototype\<close> itself, the others are functions.
\<close>

definition Object_prototype :: "string \<Rightarrow> js_value" where
  "Object_prototype key =
     (if key = ''__proto__'' then JSObject
      else if key \<in> set [''constructor'', ''hasOwnProperty'', ''isPrototypeOf'',
                          ''propertyIsEnumerable'', ''toLocaleString'', ''toString'',
                          ''valueOf'', ''__defineGetter__'', ''__defineSetter__'',
                          ''__lookupGetter__'', ''__lookupSetter__'']
      then JSFunction
      else JSUndefined)"

text \<open>\<^verbatim>\<open>obj[key]\<close>: an own property first, then the prototype.\<close>

definition get_property :: "(string \<rightharpoonup> string) \<Rightarrow> string \<Rightarrow> js_value" where
  "get_property obj key =
     (case obj key of Some s \<Rightarrow> JSString s | None \<Rightarrow> Object_prototype key)"

section \<open>Errors, effects and the rendered tree\<close>

text \<open>A thrown JavaScript \<^verbatim>\<open>Error\<close> object, with its message.\<close>

datatype exn = Error string

text \<open>
  What a call leaves behind that an observer can see, in the order it happened: a call of
  the state setter \<^verbatim>\<open>setLangState\<close>, a call of the consumer's \<^verbatim>\<open>onChange\<close>, an effect
  the consumer's own code had (what a spy recorded, an assignment it made), a
  \<^verbatim>\<open>console.warn\<close>.
\<close>

datatype event =
    SetLangState Language
  | OnChange Language
  | Consumer string
  | ConsoleWarn string

text \<open>
  The store of one mounted \<^verbatim>\<open>LanguageProvider\<close>: the cell of its \<^verbatim>\<open>useState\<close> hook
  (the value the next render reads as \<^verbatim>\<open>lang\<close>) and the trace of events so far.
\<close>

record world =
  langState :: Language
  trace :: "event list"

text \<open>
  The ambient globals a component can read while it renders: \<^verbatim>\<open>process.env.NODE_ENV\<close>
  (possibly undefined) and whether a browser \<^verbatim>\<open>window\<close> exists (it does not during a
  server-side pass).
\<close>

record environment =
  NODE_ENV :: "string option"
  window_defined :: bool

text \<open>
  An element tree: text, a tag with its attributes and children, or a plain object in
  child position. React accepts no object as a child: rendering a tree that holds one
  throws (``Objects are not valid as a React child'').
\<close>

datatype node =
    Text string
  | Element string "(string \<times> string) list" "node list"
  | ObjectChild

text \<open>
  \<^verbatim>\<open>{v}\<close> in child position: a string is a text node, \<^verbatim>\<open>undefined\<close> is no child, a
  function is no child either (React only warns about it), an object stays in the tree.
\<close>

fun child_of :: "js_value \<Rightarrow> node list" where
  "child_of JSUndefined = []"
| "child_of (JSString s) = [Text s]"
| "child_of JSObject = [ObjectChild]"
| "child_of JSFunction = []"

text \<open>
  \<^verbatim>\<open>LanguageContextValue\<close>: the current code and the function that changes it. A function
  of the program that has effects takes the world and returns its outcome (\<open>Inl\<close> a thrown
  error, \<open>Inr ()\<close> a normal return) with the world it leaves.
\<close>

record LanguageContextValue =
  lang :: Language
  setLangFn :: "Language \<Rightarrow> world \<Rightarrow> (exn + unit) \<times> world"

text \<open>
  The consumer's callback is known by what one call of it does: whether it returns
  (\<open>None\<close>) or throws (\<open>Some e\<close>), and the effects of its own that it leaves, in order.
\<close>

type_synonym callback = "Language \<Rightarrow> exn option \<times> string list"

text \<open>
  \<^verbatim>\<open>LanguageProviderProps\<close>, as \<^verbatim>\<open>LanguageProvider\<close> destructures them. Both
  \<^verbatim>\<open>defaultLang\<close> and \<^verbatim>\<open>onChange\<close> may be absent.
\<close>

record LanguageProviderProps =
  children :: "node list"
  defaultLang :: "Language option"
  onChange :: "callback option"

section \<open>LanguageProvider (src/lib/i18n/LanguageProvider.tsx)\<close>

text \<open>\<^verbatim>\<open>LANGUAGE_NAMES\<close>: the own properties of the provider's table of display names.\<close>

definition LANGUAGE_NAMES :: "Language \<rightharpoonup> string" where
  "LANGUAGE_NAMES =
     [''en'' \<mapsto> ''English'',
      ''ja'' \<mapsto> ''Japanese'',
      ''zh-tw'' \<mapsto> ''Traditional Chinese'']"

text \<open>
  The first render: \<^verbatim>\<open>useState<Language>(defaultLang)\<close> with the parameter default
  \<^verbatim>\<open>defaultLang = 'en'\<close>. Later renders ignore the argument of \<^verbatim>\<open>useState\<close>.
\<close>

definition mount :: "LanguageProviderProps \<Rightarrow> world" where
  "mount props =
     \<lparr>langState = (case defaultLang props of None \<Rightarrow> ''en'' | Some l \<Rightarrow> l),
      trace = []\<rparr>"

text \<open>
  \<^verbatim>\<open>setLang = (newLang) => { setLangState(newLang); onChange?.(newLang) }\<close>.
  The setter is called first, so the new value is stored whatever the callback does
  afterwards; there is no \<^verbatim>\<open>try\<close> around the callback, so what it throws leaves
  \<^verbatim>\<open>setLang\<close> with it. The setter itself is taken to return: React queues the update
  and renders once the caller is done. (A root that renders inside the setter call lets a
  failing render escape from it; the provider's own render fails only on an object child,
  see \<open>LanguageProvider\<close>.)
\<close>

definition setLang ::
  "LanguageProviderProps \<Rightarrow> Language \<Rightarrow> world \<Rightarrow> (exn + unit) \<times> world" where
  "setLang props newLang w =
     (let w1 = w\<lparr>langState := newLang, trace := trace w @ [SetLangState newLang]\<rparr> in
      case onChange props of
        None \<Rightarrow> (Inr (), w1)
      | Some cb \<Rightarrow>
          (let w2 = w1\<lparr>trace := trace w1 @ OnChange newLang # map Consumer (snd (cb newLang))\<rparr> in
           case fst (cb newLang) of
             None \<Rightarrow> (Inr (), w2)
           | Some e \<Rightarrow> (Inl e, w2)))"

text \<open>
  What one render of the component yields: the value handed to
  \<^verbatim>\<open>LanguageContext.Provider\<close> and the element tree below it.
\<close>

record rendered =
  ctx_value :: LanguageContextValue
  markup :: node

text \<open>
  The body of the component, as a function of its props and the state cell.
  \<^verbatim>\<open>LANGUAGE_NAMES[lang]\<close> is a property lookup on an object literal, so a string that is
  no key of the table can still find an inherited property.
\<close>

definition LanguageProvider ::
  "environment \<Rightarrow> LanguageProviderProps \<Rightarrow> world \<Rightarrow> rendered" where
  "LanguageProvider env props w =
     (let lang = langState w;
          languageName = get_property LANGUAGE_NAMES lang
      in \<lparr>ctx_value = \<lparr>lang = lang, setLangFn = setLang props\<rparr>,
          markup =
            Element ''div'' [(''lang'', lang)]
              (Element ''div''
                 [(''role'', ''status''),
                  (''aria-live'', ''polite''),
                  (''aria-atomic'', ''true''),
                  (''className'', ''sr-only'')]
                 (child_of languageName)
               # children props)\<rparr>)"

text \<open>A sequence of \<^verbatim>\<open>setLang\<close> calls, each on the world the previous one left.\<close>

fun setLang_calls :: "LanguageProviderProps \<Rightarrow> Language list \<Rightarrow> world \<Rightarrow> world" where
  "setLang_calls props [] w = w"
| "setLang_calls props (c # cs) w = setLang_calls props cs (snd (setLang props c w))"

section \<open>useLanguage (src/lib/i18n/useLanguage.ts)\<close>

definition missing_provider_message :: string where
  \<open>missing_provider_message =
     ''useLanguage must be used within a LanguageProvider. '' @
     ''Wrap your app with <LanguageProvider> to enable multilingual typography. '' @
     ''Example:\<newline>\<newline>'' @
     ''  import { LanguageProvider } from '@your-org/design-system'\<newline>\<newline>'' @
     ''  <LanguageProvider defaultLang="en">\<newline>'' @
     ''    <YourApp />\<newline>'' @
     ''  </LanguageProvider>\<newline>\<newline>'' @
     ''See documentation: https://github.com/your-org/design-system#internationalization''\<close>

definition fallback_warning :: string where
  "fallback_warning =
     ''setLang called outside LanguageProvider. Language changes will have no effect.''"

text \<open>
  \<^verbatim>\<open>useContext(LanguageContext)\<close> is the value of the nearest enclosing provider, or
  the context's default \<^verbatim>\<open>undefined\<close> (LanguageContext.ts) when there is none: the
  argument \<open>context\<close>, \<open>None\<close> for \<^verbatim>\<open>undefined\<close>.
\<close>

definition useLanguage ::
  "environment \<Rightarrow> LanguageContextValue option \<Rightarrow> exn + LanguageContextValue" where
  "useLanguage env context =
     (case context of
        None \<Rightarrow>
          if NODE_ENV env \<noteq> Some ''production''
          then Inl (Error missing_provider_message)
          else Inr \<lparr>lang = ''en'',
                    setLangFn = (\<lambda>_ w. (Inr (), w\<lparr>trace := trace w @ [ConsoleWarn fallback_warning]\<rparr>))\<rparr>
      | Some c \<Rightarrow> Inr c)"

text \<open>
  A consumer rendered among the \<^verbatim>\<open>children\<close> of a provider: React hands the
  \<^verbatim>\<open>value\<close> of the enclosing \<^verbatim>\<open>LanguageContext.Provider\<close> to its \<^verbatim>\<open>useContext\<close>.
\<close>

definition useLanguage_inside ::
  "environment \<Rightarrow> LanguageProviderProps \<Rightarrow> world \<Rightarrow> exn + LanguageContextValue" where
  "useLanguage_inside env props w =
     useLanguage env (Some (ctx_value (LanguageProvider env props w)))"

section \<open>Rendering passes\<close>

text \<open>
  The body of a function component, as the requests it makes before it returns its
  element: \<^verbatim>\<open>useState(init)\<close>, answered with the current state; \<^verbatim>\<open>useEffect\<close> or
  \<^verbatim>\<open>useLayoutEffect\<close>, which registers a change of the mounted tree to be made after
  the render; a read of the ambient globals. \<^verbatim>\<open>useCallback\<close> and \<^verbatim>\<open>useMemo\<close> only
  cache a value and are plain bindings.
\<close>

datatype component =
    Return rendered
  | UseState Language "Language \<Rightarrow> component"
  | UseEffect "node \<Rightarrow> node" component
  | ReadGlobal "environment \<Rightarrow> component"

text \<open>
  \<^verbatim>\<open>LanguageProvider\<close> in that form: one \<^verbatim>\<open>useState\<close>, then the element. It registers no
  effect and reads no global.
\<close>

definition LanguageProvider_component :: "LanguageProviderProps \<Rightarrow> component" where
  "LanguageProvider_component props =
     UseState (case defaultLang props of None \<Rightarrow> ''en'' | Some l \<Rightarrow> l)
       (\<lambda>lang.
          let languageName = get_property LANGUAGE_NAMES lang
          in Return
               \<lparr>ctx_value = \<lparr>lang = lang, setLangFn = setLang props\<rparr>,
                markup =
                  Element ''div'' [(''lang'', lang)]
                    (Element ''div''
                       [(''role'', ''status''),
                        (''aria-live'', ''polite''),
                        (''aria-atomic'', ''true''),
                        (''className'', ''sr-only'')]
                       (child_of languageName)
                     # children props)\<rparr>)"

text \<open>
  One call of the component function by React, in an environment. \<open>cell\<close> is the state
  cell: \<open>None\<close> on the first render, when \<^verbatim>\<open>useState\<close> answers with its argument. The
  result is what the body returned and the effects it registered, in order.
\<close>

primrec render ::
  "environment \<Rightarrow> Language option \<Rightarrow> component \<Rightarrow> rendered \<times> (node \<Rightarrow> node) list" where
  "render env cell (Return r) = (r, [])"
| "render env cell (UseState init k) =
     render env cell (k (case cell of None \<Rightarrow> init | Some l \<Rightarrow> l))"
| "render env cell (UseEffect f k) =
     (case render env cell k of (r, fs) \<Rightarrow> (r, f # fs))"
| "render env cell (ReadGlobal k) = render env cell (k env)"

text \<open>A tree React refuses: an object somewhere in child position.\<close>

fun invalid_child :: "node \<Rightarrow> bool" where
  "invalid_child (Text s) = False"
| "invalid_child (Element tag attrs cs) = list_ex invalid_child cs"
| "invalid_child ObjectChild = True"

text \<open>
  The first render of a pass, server (\<^verbatim>\<open>renderToString\<close>) or client (\<^verbatim>\<open>hydrateRoot\<close>):
  the component function is called on a fresh state cell and React turns the element into
  output, or throws (\<open>None\<close>) on an object child. Effects are not run during a render,
  and never on the server: the output of a server pass is this.
\<close>

definition first_render :: "environment \<Rightarrow> component \<Rightarrow> node option" where
  "first_render env c =
     (let t = markup (fst (render env None c))
      in if invalid_child t then None else Some t)"

text \<open>
  The tree a client pass leaves once the component is mounted: the first render, then the
  registered effects, each applied to the mounted tree in turn.
\<close>

definition after_mount :: "environment \<Rightarrow> component \<Rightarrow> node option" where
  "after_mount env c =
     map_option (\<lambda>t. fold (\<lambda>f t. f t) (snd (render env None c)) t) (first_render env c)"

text \<open>The value of an attribute of the root element of a tree.\<close>

fun get_attribute :: "string \<Rightarrow> node \<Rightarrow> string option" where
  "get_attribute a (Element tag attrs cs) = map_of attrs a"
| "get_attribute a (Text s) = None"
| "get_attribute a ObjectChild = None"

section \<open>Example consumers\<close>

text \<open>
  \<^verbatim>\<open>onChange\<close> callbacks for the concrete runs below: one that only returns, one that
  records its argument (a spy), one that throws.
\<close>

definition quiet_onChange :: callback where
  "quiet_onChange l = (None, [])"

definition recording_onChange :: callback where
  "recording_onChange l = (None, [l])"

definition throwing_onChange :: callback where
  "throwing_onChange l = (Some (Error ''onChange failed''), [])"

definition development_env :: environment where
  "development_env = \<lparr>NODE_ENV = Some ''development'', window_defined = True\<rparr>"

definition production_env :: environment where
  "production_env = \<lparr>NODE_ENV = Some ''production'', window_defined = True\<rparr>"

definition server_env :: environment where
  "server_env = \<lparr>NODE_ENV = Some ''production'', window_defined = False\<rparr>"

text \<open>
  Two providers the repository's requirements rule out (``no client-only code,
  \<^verbatim>\<open>useEffect\<close> for DOM manipulation''), for contrast: one writes the \<^verbatim>\<open>lang\<close> attribute
  in an effect after mount, one sets it only where \<^verbatim>\<open>window\<close> exists.
\<close>

fun set_attribute :: "string \<Rightarrow> string \<Rightarrow> node \<Rightarrow> node" where
  "set_attribute a v (Element tag attrs cs) = Element tag ((a, v) # attrs) cs"
| "set_attribute a v (Text s) = Text s"
| "set_attribute a v ObjectChild = ObjectChild"

definition effect_provider :: "LanguageProviderProps \<Rightarrow> component" where
  "effect_provider props =
     UseState (case defaultLang props of None \<Rightarrow> ''en'' | Some l \<Rightarrow> l)
       (\<lambda>lang. UseEffect (set_attribute ''lang'' lang)
          (Return \<lparr>ctx_value = \<lparr>lang = lang, setLangFn = setLang props\<rparr>,
                   markup = Element ''div'' [] (children props)\<rparr>))"

definition window_provider :: "LanguageProviderProps \<Rightarrow> component" where
  "window_provider props =
     UseState (case defaultLang props of None \<Rightarrow> ''en'' | Some l \<Rightarrow> l)
       (\<lambda>lang. ReadGlobal (\<lambda>env.
          Return \<lparr>ctx_value = \<lparr>lang = lang, setLangFn = setLang props\<rparr>,
                  markup = Element ''div''
                             (if window_defined env then [(''lang'', lang)] else [])
                             (children props)\<rparr>))"

section \<open>Basic facts\<close>

lemma is_Language_iff: "is_Language c \<longleftrightarrow> c = ''en'' \<or> c = ''ja'' \<or> c = ''zh-tw''"
  by (auto simp: is_Language_def SUPPORTED_LANGUAGES_def)

text \<open>The provider's table has exactly the registry's entries as own properties.\<close>

lemma LANGUAGE_NAMES_displayName: "LANGUAGE_NAMES c = displayName c"
  by (simp add: LANGUAGE_NAMES_def displayName_def SUPPORTED_LANGUAGES_def)

lemma displayName_is_Language: "displayName c = Some n \<Longrightarrow> is_Language c"
  by (simp add: displayName_def SUPPORTED_LANGUAGES_def is_Language_iff split: if_splits)

lemma is_Language_displayName: "is_Language c \<Longrightarrow> \<exists>n. displayName c = Some n"
  by (auto simp: displayName_def SUPPORTED_LANGUAGES_def is_Language_iff)

lemma get_property_registry:
  "displayName c = Some n \<Longrightarrow> get_property LANGUAGE_NAMES c = JSString n"
  by (simp add: get_property_def LANGUAGE_NAMES_displayName)

lemma get_property_outside:
  "\<not> is_Language c \<Longrightarrow> get_property LANGUAGE_NAMES c = Object_prototype c"
  by (auto simp: get_property_def LANGUAGE_NAMES_def is_Language_iff)

text \<open>The only string whose lookup in the table is an object.\<close>

lemma get_property_JSObject_iff:
  "get_property LANGUAGE_NAMES c = JSObject \<longleftrightarrow> c = ''__proto__''"
  by (auto simp: get_property_def LANGUAGE_NAMES_def Object_prototype_def split: if_splits)

lemma child_of_outside:
  "\<not> is_Language c \<Longrightarrow> get_property LANGUAGE_NAMES c \<noteq> JSObject \<Longrightarrow>
   child_of (get_property LANGUAGE_NAMES c) = []"
  by (auto simp: get_property_outside Object_prototype_def split: if_splits)

lemma langState_setLang: "langState (snd (setLang props c w)) = c"
  by (simp add: setLang_def Let_def split: option.split)

lemma count_list_map_Consumer: "count_list (map Consumer xs) (OnChange c) = 0"
  by (induction xs) simp_all

lemma fst_setLang:
  "fst (setLang props c w) =
     (case onChange props of
        None \<Rightarrow> Inr ()
      | Some cb \<Rightarrow> (case fst (cb c) of None \<Rightarrow> Inr () | Some e \<Rightarrow> Inl e))"
  by (simp add: setLang_def Let_def split: option.split)

lemma setLang_Some:
  "onChange props = Some cb \<Longrightarrow>
   setLang props c w =
     ((case fst (cb c) of None \<Rightarrow> Inr () | Some e \<Rightarrow> Inl e),
      w\<lparr>langState := c,
        trace := trace w @ [SetLangState c, OnChange c] @ map Consumer (snd (cb c))\<rparr>)"
  by (simp add: setLang_def Let_def split: option.split)

lemma markup_LanguageProvider:
  "markup (LanguageProvider env props w) =
     Element ''div'' [(''lang'', langState w)]
       (Element ''div''
          [(''role'', ''status''), (''aria-live'', ''polite''),
           (''aria-atomic'', ''true''), (''className'', ''sr-only'')]
          (child_of (get_property LANGUAGE_NAMES (langState w)))
        # children props)"
  by (simp add: LanguageProvider_def Let_def)

lemma ctx_value_LanguageProvider:
  "ctx_value (LanguageProvider env props w) = \<lparr>lang = langState w, setLangFn = setLang props\<rparr>"
  by (simp add: LanguageProvider_def Let_def)

lemma useLanguage_Some: "useLanguage env (Some v) = Inr v"
  by (simp add: useLanguage_def)

lemma useLanguage_inside_eq:
  "useLanguage_inside env props w = Inr \<lparr>lang = langState w, setLangFn = setLang props\<rparr>"
  by (simp add: useLanguage_inside_def useLanguage_Some ctx_value_LanguageProvider)

text \<open>Valid arguments keep the stored code valid, call after call.\<close>

lemma setLang_calls_is_Language:
  "is_Language (langState w) \<Longrightarrow> list_all is_Language cs \<Longrightarrow>
   is_Language (langState (setLang_calls props cs w))"
proof (induction cs arbitrary: w)
  case Nil
  then show ?case by simp
next
  case (Cons c cs)
  have "is_Language (langState (snd (setLang props c w)))"
    using Cons.prems(2) by (simp add: langState_setLang)
  then show ?case using Cons.IH Cons.prems(2) by simp
qed

text \<open>The component form and the function form of the provider are the same body.\<close>

lemma render_LanguageProvider_component:
  "render env cell (LanguageProvider_component props) =
     (LanguageProvider env props
        \<lparr>langState = (case cell of None \<Rightarrow> langState (mount props) | Some l \<Rightarrow> l),
         trace = tr\<rparr>, [])"
  by (simp add: LanguageProvider_component_def LanguageProvider_def Let_def mount_def
           split: option.split)

lemma LanguageProvider_langState:
  "langState w = langState w' \<Longrightarrow> LanguageProvider env props w = LanguageProvider env' props w'"
  by (simp add: LanguageProvider_def Let_def)

lemma first_render_LanguageProvider_component:
  "first_render env (LanguageProvider_component props) =
     (if get_property LANGUAGE_NAMES (langState (mount props)) = JSObject \<or>
         list_ex invalid_child (children props)
      then None
      else Some (markup (LanguageProvider env props (mount props))))"
proof -
  have r: "fst (render env None (LanguageProvider_component props)) =
             LanguageProvider env props (mount props)"
    by (simp add: render_LanguageProvider_component [where tr = "[]"] mount_def)
  have "invalid_child (markup (LanguageProvider env props (mount props))) \<longleftrightarrow>
          get_property LANGUAGE_NAMES (langState (mount props)) = JSObject \<or>
          list_ex invalid_child (children props)"
    by (cases "get_property LANGUAGE_NAMES (langState (mount props))")
       (simp_all add: markup_LanguageProvider)
  then show ?thesis by (simp add: first_render_def r Let_def)
qed

text \<open>The error message names the provider and says how to add it.\<close>

lemma message_names_provider: "sublist ''LanguageProvider'' missing_provider_message"
proof -
  have "missing_provider_message =
          ''useLanguage must be used within a '' @ ''LanguageProvider'' @
          drop 50 missing_provider_message"
    by (simp add: missing_provider_message_def)
  then show ?thesis unfolding sublist_def by blast
qed

lemma message_gives_remedy:
  "sublist ''Wrap your app with <LanguageProvider>'' missing_provider_message"
proof -
  have "missing_provider_message =
          ''useLanguage must be used within a LanguageProvider. '' @
          ''Wrap your app with <LanguageProvider>'' @
          drop 89 missing_provider_message"
    by (simp add: missing_provider_message_def)
  then show ?thesis unfolding sublist_def by blast
qed

text \<open>
  The two providers that the requirements rule out do differ between a server pass and a
  mounted client: equality of the passes is a property of a component, not of every one.
\<close>

lemma ruled_out_providers_differ:
  "first_render server_env
     (effect_provider \<lparr>children = [], defaultLang = Some ''ja'', onChange = None\<rparr>) \<noteq>
   after_mount production_env
     (effect_provider \<lparr>children = [], defaultLang = Some ''ja'', onChange = None\<rparr>) \<and>
   first_render server_env
     (window_provider \<lparr>children = [], defaultLang = Some ''ja'', onChange = None\<rparr>) \<noteq>
   first_render production_env
     (window_provider \<lparr>children = [], defaultLang = Some ''ja'', onChange = None\<rparr>)"
  by (simp add: first_render_def after_mount_def effect_provider_def window_provider_def
        server_env_def production_env_def)

section \<open>Claims about \<open>setLang\<close>\<close>

text \<open>
  Against claim C1 as it is written: \<^verbatim>\<open>'fr'\<close> is not a registry code, and on a provider
  without callback whose language is \<^verbatim>\<open>'en'\<close> the call \<^verbatim>\<open>setLang('fr')\<close> returns
  normally and leaves \<^verbatim>\<open>'fr'\<close> as the language: nothing is raised, and the state is not
  what it was.
\<close>

theorem setLang_invalid_code_counterexample:
  "\<not> is_Language ''fr'' \<and>
   setLang \<lparr>children = [], defaultLang = None, onChange = None\<rparr> ''fr''
     \<lparr>langState = ''en'', trace = []\<rparr> =
   (Inr (), \<lparr>langState = ''fr'', trace = [SetLangState ''fr'']\<rparr>) \<and>
   langState \<lparr>langState = ''fr'', trace = [SetLangState ''fr'']\<rparr> \<noteq>
   langState \<lparr>langState = ''en'', trace = []\<rparr>"
  by (simp add: is_Language_iff setLang_def)

text \<open>
  Claim C1, amended. \<^verbatim>\<open>setLang\<close> has no run-time validation; codes outside the registry
  are kept out by the parameter type \<^verbatim>\<open>Language\<close> alone. For every code \<open>c\<close> outside
  the registry on which the provider can still render, that is, whose lookup in
  \<^verbatim>\<open>LANGUAGE_NAMES\<close> is not an object (every such code but \<^verbatim>\<open>'__proto__'\<close>),
  \<^verbatim>\<open>setLang(c)\<close> stores \<open>c\<close> as the language and raises nothing of its own: it returns
  normally when there is no \<^verbatim>\<open>onChange\<close> or \<^verbatim>\<open>onChange(c)\<close> returns, and otherwise
  leaves with exactly what \<^verbatim>\<open>onChange(c)\<close> threw. The render that follows carries
  \<open>c\<close> as the \<^verbatim>\<open>lang\<close> attribute and an empty announcement.
\<close>

theorem setLang_no_validation:
  assumes "\<not> is_Language c" and "get_property LANGUAGE_NAMES c \<noteq> JSObject"
  shows "langState (snd (setLang props c w)) = c \<and>
         fst (setLang props c w) =
           (case onChange props of
              None \<Rightarrow> Inr ()
            | Some cb \<Rightarrow> (case fst (cb c) of None \<Rightarrow> Inr () | Some e \<Rightarrow> Inl e)) \<and>
         markup (LanguageProvider env props (snd (setLang props c w))) =
           Element ''div'' [(''lang'', c)]
             (Element ''div''
                [(''role'', ''status''), (''aria-live'', ''polite''),
                 (''aria-atomic'', ''true''), (''className'', ''sr-only'')]
                []
              # children props)"
  using assms
  by (simp add: langState_setLang fst_setLang markup_LanguageProvider child_of_outside)

theorem setLang_no_validation_witness:
  "\<not> is_Language ''de'' \<and> get_property LANGUAGE_NAMES ''de'' \<noteq> JSObject \<and>
   langState (snd (setLang \<lparr>children = [], defaultLang = Some ''ja'', onChange = None\<rparr> ''de''
          \<lparr>langState = ''ja'', trace = []\<rparr>)) = ''de'' \<and>
   fst (setLang \<lparr>children = [], defaultLang = Some ''ja'', onChange = None\<rparr> ''de''
          \<lparr>langState = ''ja'', trace = []\<rparr>) = Inr () \<and>
   \<not> is_Language ''constructor'' \<and> get_property LANGUAGE_NAMES ''constructor'' \<noteq> JSObject \<and>
   langState (snd (setLang \<lparr>children = [], defaultLang = Some ''ja'', onChange = Some throwing_onChange\<rparr>
          ''constructor'' \<lparr>langState = ''ja'', trace = []\<rparr>)) = ''constructor'' \<and>
   fst (setLang \<lparr>children = [], defaultLang = Some ''ja'', onChange = Some throwing_onChange\<rparr>
          ''constructor'' \<lparr>langState = ''ja'', trace = []\<rparr>) = Inl (Error ''onChange failed'')"
proof -
  have h1: "\<not> is_Language ''de''" and h3: "\<not> is_Language ''constructor''"
    by (simp_all add: is_Language_iff)
  have h2: "get_property LANGUAGE_NAMES ''de'' \<noteq> JSObject"
    and h4: "get_property LANGUAGE_NAMES ''constructor'' \<noteq> JSObject"
    by (simp_all add: get_property_JSObject_iff)
  show ?thesis
    using h1 h2 h3 h4
      setLang_no_validation [OF h1 h2,
        of "\<lparr>children = [], defaultLang = Some ''ja'', onChange = None\<rparr>"
           "\<lparr>langState = ''ja'', trace = []\<rparr>"]
      setLang_no_validation [OF h3 h4,
        of "\<lparr>children = [], defaultLang = Some ''ja'', onChange = Some throwing_onChange\<rparr>"
           "\<lparr>langState = ''ja'', trace = []\<rparr>"]
    by (simp add: throwing_onChange_def)
qed

text \<open>
  Against claim C2 as it is written: with a callback that throws, \<^verbatim>\<open>setLang('ja')\<close>
  leaves with the callback's error (it reaches the caller), and the only events are the
  state update and the callback's call: nothing is logged.
\<close>

theorem onChange_throw_counterexample:
  "setLang \<lparr>children = [], defaultLang = None, onChange = Some throwing_onChange\<rparr>
      ''ja'' \<lparr>langState = ''en'', trace = []\<rparr> =
   (Inl (Error ''onChange failed''),
    \<lparr>langState = ''ja'', trace = [SetLangState ''ja'', OnChange ''ja'']\<rparr>)"
  by (simp add: setLang_def throwing_onChange_def)

text \<open>
  Claim C2, amended. When the consumer's \<^verbatim>\<open>onChange\<close> throws on the call made by
  \<^verbatim>\<open>setLang(c)\<close>, the exception is neither caught nor logged: it propagates to the
  caller of \<^verbatim>\<open>setLang\<close>. The state update that preceded the callback still holds:
  the language is \<open>c\<close> after the call. The trace holds the setter's call, the callback's
  call and what the callback itself did before it threw, and nothing else.
\<close>

theorem onChange_throw_propagates:
  assumes "onChange props = Some cb" and "fst (cb c) = Some e"
  shows "setLang props c w =
           (Inl e, w\<lparr>langState := c,
                     trace := trace w @ [SetLangState c, OnChange c] @ map Consumer (snd (cb c))\<rparr>)"
  using assms by (simp add: setLang_Some)

theorem onChange_throw_propagates_witness:
  "onChange \<lparr>children = [], defaultLang = None, onChange = Some throwing_onChange\<rparr>
     = Some throwing_onChange \<and>
   fst (throwing_onChange ''zh-tw'') = Some (Error ''onChange failed'') \<and>
   setLang \<lparr>children = [], defaultLang = None, onChange = Some throwing_onChange\<rparr>
      ''zh-tw'' \<lparr>langState = ''en'', trace = []\<rparr> =
   (Inl (Error ''onChange failed''),
    \<lparr>langState = ''zh-tw'', trace = [SetLangState ''zh-tw'', OnChange ''zh-tw'']\<rparr>)"
proof -
  have h1: "onChange \<lparr>children = [], defaultLang = None, onChange = Some throwing_onChange\<rparr>
              = Some throwing_onChange"
    by simp
  have h2: "fst (throwing_onChange ''zh-tw'') = Some (Error ''onChange failed'')"
    by (simp add: throwing_onChange_def)
  show ?thesis
    using h1 h2 onChange_throw_propagates [OF h1 h2, of "\<lparr>langState = ''en'', trace = []\<rparr>"]
    by (simp add: throwing_onChange_def)
qed

text \<open>
  Claim C6. For a valid code \<open>c\<close> and a provider that has an \<^verbatim>\<open>onChange\<close>, the whole
  of one call \<^verbatim>\<open>setLang(c)\<close> is: \<open>c\<close> is stored; then \<^verbatim>\<open>onChange\<close> is applied to \<open>c\<close>,
  once: its effects are appended once, after the setter's event, and its outcome is the
  outcome of \<^verbatim>\<open>setLang\<close>. The world \<open>w\<close> is arbitrary, so this holds too when the
  language is already \<open>c\<close>: nothing suppresses the call.
\<close>

theorem setLang_invokes_onChange_once:
  assumes "is_Language c" and "onChange props = Some cb"
  shows "setLang props c w =
           ((case fst (cb c) of None \<Rightarrow> Inr () | Some e \<Rightarrow> Inl e),
            w\<lparr>langState := c,
              trace := trace w @ [SetLangState c, OnChange c] @ map Consumer (snd (cb c))\<rparr>) \<and>
         count_list (drop (length (trace w)) (trace (snd (setLang props c w)))) (OnChange c) = 1"
  using assms by (simp add: setLang_Some count_list_map_Consumer)

theorem setLang_invokes_onChange_once_witness:
  "is_Language ''ja'' \<and>
   onChange \<lparr>children = [], defaultLang = Some ''ja'', onChange = Some recording_onChange\<rparr>
     = Some recording_onChange \<and>
   setLang \<lparr>children = [], defaultLang = Some ''ja'', onChange = Some recording_onChange\<rparr>
      ''ja'' \<lparr>langState = ''ja'', trace = []\<rparr> =
   (Inr (), \<lparr>langState = ''ja'',
             trace = [SetLangState ''ja'', OnChange ''ja'', Consumer ''ja'']\<rparr>) \<and>
   onChange \<lparr>children = [], defaultLang = Some ''en'', onChange = Some throwing_onChange\<rparr>
     = Some throwing_onChange \<and>
   setLang \<lparr>children = [], defaultLang = Some ''en'', onChange = Some throwing_onChange\<rparr>
      ''ja'' \<lparr>langState = ''en'', trace = []\<rparr> =
   (Inl (Error ''onChange failed''),
    \<lparr>langState = ''ja'', trace = [SetLangState ''ja'', OnChange ''ja'']\<rparr>)"
proof -
  have h1: "is_Language ''ja''" by (simp add: is_Language_iff)
  have h2: "onChange \<lparr>children = [], defaultLang = Some ''ja'', onChange = Some recording_onChange\<rparr>
              = Some recording_onChange"
    by simp
  have h3: "onChange \<lparr>children = [], defaultLang = Some ''en'', onChange = Some throwing_onChange\<rparr>
              = Some throwing_onChange"
    by simp
  show ?thesis
    using h1 h2 h3
      setLang_invokes_onChange_once [OF h1 h2, of "\<lparr>langState = ''ja'', trace = []\<rparr>"]
      setLang_invokes_onChange_once [OF h1 h3, of "\<lparr>langState = ''en'', trace = []\<rparr>"]
    by (simp add: recording_onChange_def throwing_onChange_def)
qed

section \<open>Claims about \<open>useLanguage\<close>\<close>

text \<open>
  Claim C3. Outside production mode (\<^verbatim>\<open>process.env.NODE_ENV !== 'production'\<close>), a call
  of \<^verbatim>\<open>useLanguage\<close> with no enclosing provider (the context reads \<^verbatim>\<open>undefined\<close>) throws
  an error whose message names the missing \<^verbatim>\<open>LanguageProvider\<close> and tells the developer
  to wrap the application in one.
\<close>

theorem useLanguage_development_throws:
  assumes "NODE_ENV env \<noteq> Some ''production''"
  shows "useLanguage env None = Inl (Error missing_provider_message) \<and>
         sublist ''LanguageProvider'' missing_provider_message \<and>
         sublist ''Wrap your app with <LanguageProvider>'' missing_provider_message"
  using assms by (simp add: useLanguage_def message_names_provider message_gives_remedy)

theorem useLanguage_development_throws_witness:
  "NODE_ENV development_env \<noteq> Some ''production'' \<and>
   useLanguage development_env None = Inl (Error missing_provider_message)"
proof -
  have h: "NODE_ENV development_env \<noteq> Some ''production''"
    by (simp add: development_env_def)
  show ?thesis using h useLanguage_development_throws [OF h] by simp
qed

text \<open>
  Claim C4. In production mode, a call of \<^verbatim>\<open>useLanguage\<close> with no enclosing provider
  returns the default code \<^verbatim>\<open>'en'\<close> and a \<^verbatim>\<open>setLang\<close> that, for every argument and in every
  world, returns normally and changes nothing but the console, where it adds one warning;
  a later call of \<^verbatim>\<open>useLanguage\<close> returns \<^verbatim>\<open>'en'\<close> again.
\<close>

theorem useLanguage_production_fallback:
  assumes "NODE_ENV env = Some ''production''"
  shows "\<exists>v. useLanguage env None = Inr v \<and> lang v = ''en'' \<and>
           (\<forall>c w. setLangFn v c w =
                    (Inr (), w\<lparr>trace := trace w @ [ConsoleWarn fallback_warning]\<rparr>) \<and>
                  langState (snd (setLangFn v c w)) = langState w \<and>
                  (\<exists>v'. useLanguage env None = Inr v' \<and> lang v' = ''en''))"
  using assms by (simp add: useLanguage_def)

theorem useLanguage_production_fallback_witness:
  "NODE_ENV production_env = Some ''production'' \<and>
   (\<exists>v. useLanguage production_env None = Inr v \<and> lang v = ''en'' \<and>
        setLangFn v ''ja'' \<lparr>langState = ''zh-tw'', trace = []\<rparr> =
          (Inr (), \<lparr>langState = ''zh-tw'', trace = [ConsoleWarn fallback_warning]\<rparr>))"
proof -
  have h: "NODE_ENV production_env = Some ''production''"
    by (simp add: production_env_def)
  from useLanguage_production_fallback [OF h]
  obtain v where v: "useLanguage production_env None = Inr v" "lang v = ''en''"
    "\<And>c w. setLangFn v c w = (Inr (), w\<lparr>trace := trace w @ [ConsoleWarn fallback_warning]\<rparr>)"
    by blast
  have "setLangFn v ''ja'' \<lparr>langState = ''zh-tw'', trace = []\<rparr> =
          (Inr (), \<lparr>langState = ''zh-tw'', trace = [ConsoleWarn fallback_warning]\<rparr>)"
    by (simp add: v(3))
  with h v(1,2) show ?thesis by blast
qed

text \<open>
  Claim C10. With a provider present (the context read is \<open>Some v\<close>), \<^verbatim>\<open>useLanguage\<close>
  returns \<open>v\<close> itself, whatever the environment: two runs that differ only in the
  environment, hence in the mode flag, return the same value, also when the context value
  is the one a \<^verbatim>\<open>LanguageProvider\<close> supplies.
\<close>

theorem useLanguage_inside_provider_ignores_mode:
  "useLanguage env (Some v) = Inr v \<and>
   useLanguage env1 (Some v) = useLanguage env2 (Some v) \<and>
   useLanguage_inside env1 props w = useLanguage_inside env2 props w"
  by (simp add: useLanguage_Some useLanguage_inside_eq)

text \<open>
  Claim C5. For valid codes \<open>c1\<close> and \<open>c2\<close>: inside a provider created with
  \<^verbatim>\<open>defaultLang = c1\<close>, \<^verbatim>\<open>useLanguage\<close> returns a value whose \<^verbatim>\<open>lang\<close> is \<open>c1\<close> before
  any write; and after the \<^verbatim>\<open>setLang\<close> of that value is called with \<open>c2\<close>, the next
  \<^verbatim>\<open>useLanguage\<close> returns \<^verbatim>\<open>lang\<close> equal to \<open>c2\<close>, whatever \<open>c1\<close> was.
\<close>

theorem access_reflects_init_and_latest_write:
  assumes "is_Language c1" and "is_Language c2" and "defaultLang props = Some c1"
  shows "\<exists>v. useLanguage_inside env props (mount props) = Inr v \<and> lang v = c1 \<and>
           (\<exists>v'. useLanguage_inside env props (snd (setLangFn v c2 (mount props))) = Inr v' \<and>
                 lang v' = c2)"
  using assms by (simp add: useLanguage_inside_eq mount_def langState_setLang)

theorem access_reflects_init_and_latest_write_witness:
  "is_Language ''ja'' \<and> is_Language ''zh-tw'' \<and>
   defaultLang \<lparr>children = [], defaultLang = Some ''ja'', onChange = None\<rparr> = Some ''ja'' \<and>
   (\<exists>v. useLanguage_inside production_env
          \<lparr>children = [], defaultLang = Some ''ja'', onChange = None\<rparr>
          (mount \<lparr>children = [], defaultLang = Some ''ja'', onChange = None\<rparr>) = Inr v \<and>
        lang v = ''ja'' \<and>
        (\<exists>v'. useLanguage_inside production_env
           \<lparr>children = [], defaultLang = Some ''ja'', onChange = None\<rparr>
           (snd (setLangFn v ''zh-tw''
                  (mount \<lparr>children = [], defaultLang = Some ''ja'', onChange = None\<rparr>))) = Inr v' \<and>
           lang v' = ''zh-tw''))"
proof -
  have h1: "is_Language ''ja''" and h2: "is_Language ''zh-tw''"
    by (simp_all add: is_Language_iff)
  have h3: "defaultLang \<lparr>children = [], defaultLang = Some ''ja'', onChange = None\<rparr> = Some ''ja''"
    by simp
  show ?thesis
    using h1 h2 h3 access_reflects_init_and_latest_write [OF h1 h2 h3, of production_env]
    by blast
qed

section \<open>Claims about the rendered output\<close>

text \<open>
  Claim C7. Whenever the language is a registry code \<open>c\<close> with display name \<open>name\<close>, the
  rendered tree is a \<^verbatim>\<open>div\<close> whose \<^verbatim>\<open>lang\<close> attribute is \<open>c\<close> and whose first child is the
  status region (class \<^verbatim>\<open>sr-only\<close>, \<^verbatim>\<open>aria-live="polite"\<close>) holding exactly the text
  \<open>name\<close>, followed by the children; the same holds for the render that follows
  \<^verbatim>\<open>setLang(c)\<close>.
\<close>

theorem render_lang_attribute_and_announcement:
  assumes "displayName c = Some name"
  shows "markup (LanguageProvider env props (w\<lparr>langState := c\<rparr>)) =
           Element ''div'' [(''lang'', c)]
             (Element ''div''
                [(''role'', ''status''), (''aria-live'', ''polite''),
                 (''aria-atomic'', ''true''), (''className'', ''sr-only'')]
                [Text name]
              # children props) \<and>
         markup (LanguageProvider env props (snd (setLang props c w))) =
           Element ''div'' [(''lang'', c)]
             (Element ''div''
                [(''role'', ''status''), (''aria-live'', ''polite''),
                 (''aria-atomic'', ''true''), (''className'', ''sr-only'')]
                [Text name]
              # children props)"
  using assms by (simp add: markup_LanguageProvider langState_setLang get_property_registry)

theorem render_lang_attribute_and_announcement_witness:
  "displayName ''ja'' = Some ''Japanese'' \<and>
   displayName ''zh-tw'' = Some ''Traditional Chinese'' \<and>
   markup (LanguageProvider server_env
             \<lparr>children = [Text ''x''], defaultLang = Some ''ja'', onChange = None\<rparr>
             (mount \<lparr>children = [Text ''x''], defaultLang = Some ''ja'', onChange = None\<rparr>)) =
     Element ''div'' [(''lang'', ''ja'')]
       [Element ''div''
          [(''role'', ''status''), (''aria-live'', ''polite''),
           (''aria-atomic'', ''true''), (''className'', ''sr-only'')]
          [Text ''Japanese''],
        Text ''x''] \<and>
   markup (LanguageProvider server_env
             \<lparr>children = [Text ''x''], defaultLang = Some ''ja'', onChange = None\<rparr>
             (snd (setLang \<lparr>children = [Text ''x''], defaultLang = Some ''ja'', onChange = None\<rparr>
                     ''zh-tw''
                     (mount \<lparr>children = [Text ''x''], defaultLang = Some ''ja'', onChange = None\<rparr>)))) =
     Element ''div'' [(''lang'', ''zh-tw'')]
       [Element ''div''
          [(''role'', ''status''), (''aria-live'', ''polite''),
           (''aria-atomic'', ''true''), (''className'', ''sr-only'')]
          [Text ''Traditional Chinese''],
        Text ''x'']"
proof -
  have h1: "displayName ''ja'' = Some ''Japanese''"
    and h2: "displayName ''zh-tw'' = Some ''Traditional Chinese''"
    by (simp_all add: displayName_def SUPPORTED_LANGUAGES_def)
  have m: "mount \<lparr>children = [Text ''x''], defaultLang = Some ''ja'', onChange = None\<rparr> =
             \<lparr>langState = ''en'', trace = []\<rparr>\<lparr>langState := ''ja''\<rparr>"
    by (simp add: mount_def)
  show ?thesis
    using h1 h2
      render_lang_attribute_and_announcement [OF h1,
        of server_env "\<lparr>children = [Text ''x''], defaultLang = Some ''ja'', onChange = None\<rparr>"
           "\<lparr>langState = ''en'', trace = []\<rparr>"]
      render_lang_attribute_and_announcement [OF h2,
        of server_env "\<lparr>children = [Text ''x''], defaultLang = Some ''ja'', onChange = None\<rparr>"
           "mount \<lparr>children = [Text ''x''], defaultLang = Some ''ja'', onChange = None\<rparr>"]
    by (simp add: m)
qed

text \<open>
  Claim C8. For the same props, a server pass and a client pass of the provider give the
  same output: the component function returns the same value in any two environments
  and registers no effect, on the first render and on every later one; so the first renders agree, as trees and under every serialisation \<open>ser\<close> of
  trees into bytes, and the tree of the mounted client, after its effects, is still the
  output of the server. A first render fails only on an object child (a \<^verbatim>\<open>defaultLang\<close>
  whose table lookup is an object, or such a child among \<^verbatim>\<open>children\<close>), and then in both
  passes; whenever it yields a tree, the root carries the \<^verbatim>\<open>lang\<close> attribute with the
  initial language. The component form denotes the function \<open>LanguageProvider\<close>.
\<close>

theorem provider_renders_same_on_server_and_client:
  "render env1 cell (LanguageProvider_component props) =
     render env2 cell (LanguageProvider_component props) \<and>
   first_render env1 (LanguageProvider_component props) =
     first_render env2 (LanguageProvider_component props) \<and>
   map_option ser (first_render env1 (LanguageProvider_component props)) =
     map_option ser (first_render env2 (LanguageProvider_component props)) \<and>
   snd (render env1 cell (LanguageProvider_component props)) = [] \<and>
   after_mount env2 (LanguageProvider_component props) =
     first_render env1 (LanguageProvider_component props) \<and>
   (first_render env1 (LanguageProvider_component props) = None \<longleftrightarrow>
      get_property LANGUAGE_NAMES (langState (mount props)) = JSObject \<or>
      list_ex invalid_child (children props)) \<and>
   (\<forall>t. first_render env1 (LanguageProvider_component props) = Some t \<longrightarrow>
        get_attribute ''lang'' t = Some (langState (mount props))) \<and>
   fst (render env1 (Some (langState w)) (LanguageProvider_component props)) =
     LanguageProvider env1 props w"
proof -
  let ?c = "LanguageProvider_component props"
  have r: "render env1 cell ?c = render env2 cell ?c" for cell
    by (simp add: LanguageProvider_component_def Let_def)
  have f: "first_render env1 ?c = first_render env2 ?c"
    by (simp add: first_render_def r)
  have e: "snd (render env cell ?c) = []" for env cell
    by (simp add: LanguageProvider_component_def Let_def)
  have a: "after_mount env2 ?c = first_render env1 ?c"
    by (simp add: after_mount_def e f option.map_ident)
  have n: "first_render env1 ?c = None \<longleftrightarrow>
             get_property LANGUAGE_NAMES (langState (mount props)) = JSObject \<or>
             list_ex invalid_child (children props)"
    by (simp add: first_render_LanguageProvider_component)
  have l: "\<forall>t. first_render env1 ?c = Some t \<longrightarrow>
             get_attribute ''lang'' t = Some (langState (mount props))"
    by (auto simp: first_render_LanguageProvider_component markup_LanguageProvider
             split: if_splits)
  have k: "fst (render env1 (Some (langState w)) ?c) = LanguageProvider env1 props w"
    by (simp add: LanguageProvider_component_def LanguageProvider_def Let_def)
  from r f e a n l k show ?thesis by simp
qed

theorem provider_renders_same_on_server_and_client_witness:
  "first_render server_env
     (LanguageProvider_component \<lparr>children = [Text ''x''], defaultLang = Some ''ja'', onChange = None\<rparr>) =
   Some (Element ''div'' [(''lang'', ''ja'')]
          [Element ''div''
             [(''role'', ''status''), (''aria-live'', ''polite''),
              (''aria-atomic'', ''true''), (''className'', ''sr-only'')]
             [Text ''Japanese''],
           Text ''x'']) \<and>
   after_mount production_env
     (LanguageProvider_component \<lparr>children = [Text ''x''], defaultLang = Some ''ja'', onChange = None\<rparr>) =
   first_render server_env
     (LanguageProvider_component \<lparr>children = [Text ''x''], defaultLang = Some ''ja'', onChange = None\<rparr>) \<and>
   get_attribute ''lang''
     (Element ''div'' [(''lang'', ''ja'')]
          [Element ''div''
             [(''role'', ''status''), (''aria-live'', ''polite''),
              (''aria-atomic'', ''true''), (''className'', ''sr-only'')]
             [Text ''Japanese''],
           Text ''x'']) =
   Some (langState (mount \<lparr>children = [Text ''x''], defaultLang = Some ''ja'', onChange = None\<rparr>))"
proof -
  let ?p = "\<lparr>children = [Text ''x''], defaultLang = Some ''ja'', onChange = None\<rparr>"
  have v: "first_render server_env (LanguageProvider_component ?p) =
             Some (Element ''div'' [(''lang'', ''ja'')]
                    [Element ''div''
                       [(''role'', ''status''), (''aria-live'', ''polite''),
                        (''aria-atomic'', ''true''), (''className'', ''sr-only'')]
                       [Text ''Japanese''],
                     Text ''x''])"
    by (simp add: first_render_def LanguageProvider_component_def Let_def get_property_def
          LANGUAGE_NAMES_def)
  show ?thesis
    using v provider_renders_same_on_server_and_client
              [of server_env None ?p production_env id "mount ?p"]
    by (simp add: mount_def)
qed

text \<open>
  Against claim C9 as it is written: a provider created with the valid code \<^verbatim>\<open>'en'\<close>
  and sent the single call \<^verbatim>\<open>setLang('fr')\<close> holds \<^verbatim>\<open>'fr'\<close>, which is no registry code.
\<close>

theorem lang_invariant_counterexample:
  "is_Language ''en'' \<and>
   langState (setLang_calls \<lparr>children = [], defaultLang = Some ''en'', onChange = None\<rparr>
                [''fr'']
                (mount \<lparr>children = [], defaultLang = Some ''en'', onChange = None\<rparr>)) = ''fr'' \<and>
   \<not> is_Language ''fr''"
  by (simp add: is_Language_iff langState_setLang)

text \<open>
  Claim C9, amended. After construction with a valid \<^verbatim>\<open>defaultLang\<close> (or none) and any
  sequence of \<^verbatim>\<open>setLang\<close> calls whose arguments are all valid codes, as the parameter
  type \<^verbatim>\<open>Language\<close> requires, the current language is a registry code, and it is the
  value of the \<^verbatim>\<open>lang\<close> attribute of the rendered container.
\<close>

theorem lang_stays_in_registry:
  assumes "case_option True is_Language (defaultLang props)"
    and "list_all is_Language cs"
  shows "is_Language (langState (setLang_calls props cs (mount props))) \<and>
         (\<exists>kids. markup (LanguageProvider env props (setLang_calls props cs (mount props))) =
            Element ''div''
              [(''lang'', langState (setLang_calls props cs (mount props)))] kids)"
proof -
  have "is_Language (langState (mount props))"
    using assms(1) by (cases "defaultLang props") (simp_all add: mount_def is_Language_iff)
  then have "is_Language (langState (setLang_calls props cs (mount props)))"
    using assms(2) by (rule setLang_calls_is_Language)
  then show ?thesis by (simp add: markup_LanguageProvider)
qed

theorem lang_stays_in_registry_witness:
  "case_option True is_Language
     (defaultLang \<lparr>children = [], defaultLang = Some ''ja'', onChange = Some throwing_onChange\<rparr>) \<and>
   list_all is_Language [''zh-tw'', ''en'', ''en''] \<and>
   is_Language
     (langState
        (setLang_calls \<lparr>children = [], defaultLang = Some ''ja'', onChange = Some throwing_onChange\<rparr>
           [''zh-tw'', ''en'', ''en'']
           (mount \<lparr>children = [], defaultLang = Some ''ja'', onChange = Some throwing_onChange\<rparr>)))"
proof -
  have h1: "case_option True is_Language
     (defaultLang \<lparr>children = [], defaultLang = Some ''ja'', onChange = Some throwing_onChange\<rparr>)"
    by (simp add: is_Language_iff)
  have h2: "list_all is_Language [''zh-tw'', ''en'', ''en'']"
    by (simp add: is_Language_iff)
  show ?thesis
    using h1 h2 lang_stays_in_registry [OF h1 h2] by blast
qed

end
